theory Spec2Isabelle
  imports Complex_Main
begin

section \<open>The matrix routines of GLprimer.cpp\<close>

text \<open>
  The eight matrix routines of \<^verbatim>\<open>Labmaterial/GLprimer.cpp\<close> (\<^verbatim>\<open>mat4mult\<close>,
  \<^verbatim>\<open>mat4identity\<close>, \<^verbatim>\<open>mat4rotx\<close>, \<^verbatim>\<open>mat4roty\<close>, \<^verbatim>\<open>mat4rotz\<close>, \<^verbatim>\<open>mat4scale\<close>,
  \<^verbatim>\<open>mat4translate\<close>, \<^verbatim>\<open>mat4perspective\<close>) take their matrices as \<^verbatim>\<open>float M[]\<close>
  parameters, that is as pointers into the caller's memory, and write their result through
  such a pointer. They are embedded as functions from memory to memory.

  \<^bold>\<open>Memory.\<close> Memory is a function from addresses to numbers; an array parameter is the
  address of its first element, and \<^verbatim>\<open>M[i]\<close> is the cell at address \<open>M + i\<close>. Two
  parameters may therefore name the same array, or overlapping ones, exactly as two C
  pointers may.

  \<^bold>\<open>Numbers.\<close> Two number types are used.

  \<^item> \<open>float\<close> holds the values of a C++ \<^verbatim>\<open>float\<close>: a finite number, \<open>+\<infinity>\<close>, \<open>-\<infinity>\<close> or NaN.
    Its operations follow the rules of IEEE 754 for the special values: a finite number
    divided by zero is an infinity, \<open>0 / 0\<close>, \<open>0 \<cdot> \<infinity>\<close>, \<open>\<infinity> - \<infinity>\<close> and \<open>\<infinity> / \<infinity>\<close> are NaN, a
    finite number divided by an infinity is zero, and NaN propagates. On finite operands
    the operations are the exact ones of \<^typ>\<open>real\<close>: rounding and overflow are not
    modelled. Zero has no sign: a zero divisor counts as \<open>+0\<close> (which is what
    \<^verbatim>\<open>zfar - znear\<close> yields for equal finite operands), so the sign of an infinity that
    comes from a division by zero is that of the dividend.

  \<^item> \<^typ>\<open>real\<close> is exact arithmetic. It has no infinities and no NaN, and its quotient by
    zero is \<open>0\<close>: statements over \<^typ>\<open>real\<close> speak of finite values and carry the
    hypotheses under which no divisor is zero.

  The routines that only store, add and multiply (\<^verbatim>\<open>mat4mult\<close>, \<^verbatim>\<open>mat4identity\<close>,
  \<^verbatim>\<open>mat4scale\<close>, \<^verbatim>\<open>mat4translate\<close>) are written once, for any number type. The routines
  that call \<^verbatim>\<open>cos\<close>, \<^verbatim>\<open>sin\<close> or \<^verbatim>\<open>tan\<close> are written for \<^typ>\<open>real\<close> under the name of the
  source, and for \<open>float\<close> under that name followed by \<open>_float\<close>; on finite values and
  nonzero divisors the two agree (lemmas \<open>mat4rotx_float_finite\<close> to
  \<open>mat4perspective_float_finite\<close>).
\<close>

type_synonym addr = nat
type_synonym 'a memory = "addr \<Rightarrow> 'a"

subsection \<open>The values of a \<^verbatim>\<open>float\<close>\<close>

datatype float = is_Finite: Finite real | PInf | NInf | NaN

fun float_add :: "float \<Rightarrow> float \<Rightarrow> float" where
  "float_add (Finite a) (Finite b) = Finite (a + b)"
| "float_add NaN y = NaN"
| "float_add x NaN = NaN"
| "float_add PInf NInf = NaN"
| "float_add NInf PInf = NaN"
| "float_add PInf y = PInf"
| "float_add x PInf = PInf"
| "float_add NInf y = NInf"
| "float_add x NInf = NInf"

fun float_neg :: "float \<Rightarrow> float" where
  "float_neg (Finite a) = Finite (- a)"
| "float_neg PInf = NInf"
| "float_neg NInf = PInf"
| "float_neg NaN = NaN"

fun float_mul :: "float \<Rightarrow> float \<Rightarrow> float" where
  "float_mul (Finite a) (Finite b) = Finite (a * b)"
| "float_mul NaN y = NaN"
| "float_mul x NaN = NaN"
| "float_mul PInf (Finite b) = (if b = 0 then NaN else if 0 < b then PInf else NInf)"
| "float_mul NInf (Finite b) = (if b = 0 then NaN else if 0 < b then NInf else PInf)"
| "float_mul (Finite a) PInf = (if a = 0 then NaN else if 0 < a then PInf else NInf)"
| "float_mul (Finite a) NInf = (if a = 0 then NaN else if 0 < a then NInf else PInf)"
| "float_mul PInf PInf = PInf"
| "float_mul PInf NInf = NInf"
| "float_mul NInf PInf = NInf"
| "float_mul NInf NInf = PInf"

fun float_div :: "float \<Rightarrow> float \<Rightarrow> float" where
  "float_div (Finite a) (Finite b) =
    (if b = 0 then (if a = 0 then NaN else if 0 < a then PInf else NInf) else Finite (a / b))"
| "float_div NaN y = NaN"
| "float_div x NaN = NaN"
| "float_div (Finite a) PInf = Finite 0"
| "float_div (Finite a) NInf = Finite 0"
| "float_div PInf (Finite b) = (if 0 \<le> b then PInf else NInf)"
| "float_div NInf (Finite b) = (if 0 \<le> b then NInf else PInf)"
| "float_div PInf PInf = NaN"
| "float_div PInf NInf = NaN"
| "float_div NInf PInf = NaN"
| "float_div NInf NInf = NaN"

text \<open>
  \<^verbatim>\<open>cos\<close>, \<^verbatim>\<open>sin\<close> and \<^verbatim>\<open>tan\<close> of an infinity or of NaN are NaN. (No \<^verbatim>\<open>float\<close> is an odd
  multiple of \<open>\<pi> / 2\<close>, where the tangent of \<^typ>\<open>real\<close> is \<open>0\<close> by convention.)
\<close>

fun float_cos :: "float \<Rightarrow> float" where
  "float_cos (Finite a) = Finite (cos a)"
| "float_cos x = NaN"

fun float_sin :: "float \<Rightarrow> float" where
  "float_sin (Finite a) = Finite (sin a)"
| "float_sin x = NaN"

fun float_tan :: "float \<Rightarrow> float" where
  "float_tan (Finite a) = Finite (tan a)"
| "float_tan x = NaN"

text \<open>
  The operators \<open>+\<close>, \<open>*\<close>, \<open>-\<close>, \<open>/\<close> and the constants \<open>0\<close> and \<open>1\<close> on \<open>float\<close>. Addition
  is associative and commutative with neutral element \<open>0\<close>, also on the special values.
\<close>

instantiation float :: "{comm_monoid_add, one, times, uminus, minus, inverse}"
begin

definition zero_float_def: "0 = Finite 0"
definition one_float_def: "1 = Finite 1"
definition plus_float_def: "x + y = float_add x y"
definition times_float_def: "x * y = float_mul x y"
definition uminus_float_def: "- x = float_neg x"
definition minus_float_def: "x - y = float_add x (float_neg y)"
definition divide_float_def: "x div y = float_div x y"
definition inverse_float_def: "inverse x = float_div (Finite 1) x"

instance
proof
  fix a b c :: float
  show "a + b + c = a + (b + c)"
    by (cases a; cases b; cases c) (simp_all add: plus_float_def)
  show "a + b = b + a"
    by (cases a; cases b) (simp_all add: plus_float_def)
  show "0 + a = a"
    by (cases a) (simp_all add: plus_float_def zero_float_def)
qed

end

definition finite_memory :: "real memory \<Rightarrow> float memory" where
  \<comment> \<open>the memory of finite values that holds the number \<open>h a\<close> at every address \<open>a\<close>\<close>
  "finite_memory h = (\<lambda>a. Finite (h a))"

subsection \<open>Arrays in memory\<close>

definition rd :: "'a memory \<Rightarrow> addr \<Rightarrow> nat \<Rightarrow> 'a" where
  \<comment> \<open>the value of the expression \<^verbatim>\<open>M[i]\<close>\<close>
  "rd h M i = h (M + i)"

definition wr :: "addr \<Rightarrow> nat \<Rightarrow> 'a \<Rightarrow> 'a memory \<Rightarrow> 'a memory" where
  \<comment> \<open>the assignment \<^verbatim>\<open>M[i] = v\<close>\<close>
  "wr M i v h = h(M + i := v)"

definition matrix_at :: "'a memory \<Rightarrow> addr \<Rightarrow> 'a list" where
  \<comment> \<open>the sixteen elements of the matrix stored at \<open>M\<close>, in index order\<close>
  "matrix_at h M = map (rd h M) [0..<16]"

definition separate :: "addr \<Rightarrow> addr \<Rightarrow> bool" where
  \<comment> \<open>two sixteen-element arrays that share no cell\<close>
  "separate M N = (M + 16 \<le> N \<or> N + 16 \<le> M)"

definition poke :: "addr \<Rightarrow> 'a list \<Rightarrow> 'a memory \<Rightarrow> 'a memory" where
  \<comment> \<open>memory with the array at \<open>M\<close> holding the elements of \<open>xs\<close>\<close>
  "poke M xs h = (\<lambda>a. if M \<le> a \<and> a < M + length xs then xs ! (a - M) else h a)"

subsection \<open>\<^verbatim>\<open>mat4mult\<close>\<close>

text \<open>
  \<^verbatim>\<open>float Mtemp[16]\<close> is a local array: no parameter can point into it. Its sixteen
  assignments, in the order of the source (rows of the result, one block per row), read
  \<^verbatim>\<open>M1\<close> and \<^verbatim>\<open>M2\<close> in the memory the call starts with. C leaves the array's initial
  contents indeterminate; \<open>mat4mult_fill\<close> takes them as its last argument, and
  \<open>mat4mult\<close> starts from zeros (lemma \<open>mat4mult_fill_any\<close> shows that the choice
  is immaterial).
\<close>

definition mat4mult_fill ::
  "('a::{plus,times}) memory \<Rightarrow> addr \<Rightarrow> addr \<Rightarrow> 'a list \<Rightarrow> 'a list" where
  "mat4mult_fill h M1 M2 Mtemp =
    (let
      Mtemp = Mtemp[0 := rd h M1 0 * rd h M2 0 + rd h M1 4 * rd h M2 1 + rd h M1 8 * rd h M2 2 + rd h M1 12 * rd h M2 3];
      Mtemp = Mtemp[4 := rd h M1 0 * rd h M2 4 + rd h M1 4 * rd h M2 5 + rd h M1 8 * rd h M2 6 + rd h M1 12 * rd h M2 7];
      Mtemp = Mtemp[8 := rd h M1 0 * rd h M2 8 + rd h M1 4 * rd h M2 9 + rd h M1 8 * rd h M2 10 + rd h M1 12 * rd h M2 11];
      Mtemp = Mtemp[12 := rd h M1 0 * rd h M2 12 + rd h M1 4 * rd h M2 13 + rd h M1 8 * rd h M2 14 + rd h M1 12 * rd h M2 15];

      Mtemp = Mtemp[1 := rd h M1 1 * rd h M2 0 + rd h M1 5 * rd h M2 1 + rd h M1 9 * rd h M2 2 + rd h M1 13 * rd h M2 3];
      Mtemp = Mtemp[5 := rd h M1 1 * rd h M2 4 + rd h M1 5 * rd h M2 5 + rd h M1 9 * rd h M2 6 + rd h M1 13 * rd h M2 7];
      Mtemp = Mtemp[9 := rd h M1 1 * rd h M2 8 + rd h M1 5 * rd h M2 9 + rd h M1 9 * rd h M2 10 + rd h M1 13 * rd h M2 11];
      Mtemp = Mtemp[13 := rd h M1 1 * rd h M2 12 + rd h M1 5 * rd h M2 13 + rd h M1 9 * rd h M2 14 + rd h M1 13 * rd h M2 15];

      Mtemp = Mtemp[2 := rd h M1 2 * rd h M2 0 + rd h M1 6 * rd h M2 1 + rd h M1 10 * rd h M2 2 + rd h M1 14 * rd h M2 3];
      Mtemp = Mtemp[6 := rd h M1 2 * rd h M2 4 + rd h M1 6 * rd h M2 5 + rd h M1 10 * rd h M2 6 + rd h M1 14 * rd h M2 7];
      Mtemp = Mtemp[10 := rd h M1 2 * rd h M2 8 + rd h M1 6 * rd h M2 9 + rd h M1 10 * rd h M2 10 + rd h M1 14 * rd h M2 11];
      Mtemp = Mtemp[14 := rd h M1 2 * rd h M2 12 + rd h M1 6 * rd h M2 13 + rd h M1 10 * rd h M2 14 + rd h M1 14 * rd h M2 15];

      Mtemp = Mtemp[3 := rd h M1 3 * rd h M2 0 + rd h M1 7 * rd h M2 1 + rd h M1 11 * rd h M2 2 + rd h M1 15 * rd h M2 3];
      Mtemp = Mtemp[7 := rd h M1 3 * rd h M2 4 + rd h M1 7 * rd h M2 5 + rd h M1 11 * rd h M2 6 + rd h M1 15 * rd h M2 7];
      Mtemp = Mtemp[11 := rd h M1 3 * rd h M2 8 + rd h M1 7 * rd h M2 9 + rd h M1 11 * rd h M2 10 + rd h M1 15 * rd h M2 11];
      Mtemp = Mtemp[15 := rd h M1 3 * rd h M2 12 + rd h M1 7 * rd h M2 13 + rd h M1 11 * rd h M2 14 + rd h M1 15 * rd h M2 15]
    in Mtemp)"

text \<open>
  The loop \<^verbatim>\<open>for(int i = 0; i < 16; i++) Mout[i] = Mtemp[i];\<close>, from the value \<open>i\<close> of
  its counter onwards.
\<close>

function mat4mult_copy :: "nat \<Rightarrow> 'a list \<Rightarrow> addr \<Rightarrow> 'a memory \<Rightarrow> 'a memory" where
  "mat4mult_copy i Mtemp Mout h =
    (if i < 16 then mat4mult_copy (i + 1) Mtemp Mout (wr Mout i (Mtemp ! i) h) else h)"
  by pat_completeness auto
termination
  by (relation "measure (\<lambda>(i, Mtemp, Mout, h). 16 - i)") auto

declare mat4mult_copy.simps [simp del]

definition mat4mult ::
  "addr \<Rightarrow> addr \<Rightarrow> addr \<Rightarrow> ('a::{zero,plus,times}) memory \<Rightarrow> 'a memory" where
  "mat4mult M1 M2 Mout h =
    (let Mtemp = mat4mult_fill h M1 M2 (replicate 16 0)
     in mat4mult_copy 0 Mtemp Mout h)"

subsection \<open>The matrices built from the identity\<close>

definition mat4identity :: "addr \<Rightarrow> ('a::{zero,one}) memory \<Rightarrow> 'a memory" where
  "mat4identity M h =
    (let
      h = wr M 0 1 h;
      h = wr M 1 0 h;
      h = wr M 2 0 h;
      h = wr M 3 0 h;

      h = wr M 4 0 h;
      h = wr M 5 1 h;
      h = wr M 6 0 h;
      h = wr M 7 0 h;

      h = wr M 8 0 h;
      h = wr M 9 0 h;
      h = wr M 10 1 h;
      h = wr M 11 0 h;

      h = wr M 12 0 h;
      h = wr M 13 0 h;
      h = wr M 14 0 h;
      h = wr M 15 1 h
    in h)"

definition mat4rotx :: "addr \<Rightarrow> real \<Rightarrow> real memory \<Rightarrow> real memory" where
  "mat4rotx M angle h =
    (let
      h = mat4identity M h;
      h = wr M 5 (cos angle) h;
      h = wr M 6 (sin angle) h;
      h = wr M 9 (- sin angle) h;
      h = wr M 10 (cos angle) h
    in h)"

definition mat4roty :: "addr \<Rightarrow> real \<Rightarrow> real memory \<Rightarrow> real memory" where
  "mat4roty M angle h =
    (let
      h = mat4identity M h;
      h = wr M 0 (cos angle) h;
      h = wr M 2 (- sin angle) h;
      h = wr M 8 (sin angle) h;
      h = wr M 10 (cos angle) h
    in h)"

definition mat4rotz :: "addr \<Rightarrow> real \<Rightarrow> real memory \<Rightarrow> real memory" where
  "mat4rotz M angle h =
    (let
      h = mat4identity M h;
      h = wr M 0 (cos angle) h;
      h = wr M 1 (sin angle) h;
      h = wr M 4 (- sin angle) h;
      h = wr M 5 (cos angle) h
    in h)"

definition mat4scale :: "addr \<Rightarrow> 'a \<Rightarrow> ('a::{zero,one}) memory \<Rightarrow> 'a memory" where
  "mat4scale M scale h =
    (let
      h = mat4identity M h;
      h = wr M 0 scale h;
      h = wr M 5 scale h;
      h = wr M 10 scale h;
      h = wr M 15 scale h
    in h)"

definition mat4translate ::
  "addr \<Rightarrow> 'a \<Rightarrow> 'a \<Rightarrow> 'a \<Rightarrow> ('a::{zero,one}) memory \<Rightarrow> 'a memory" where
  "mat4translate M x y z h =
    (let
      h = mat4identity M h;
      h = wr M 12 x h;
      h = wr M 13 y h;
      h = wr M 14 z h
    in h)"

definition mat4perspective ::
  "addr \<Rightarrow> real \<Rightarrow> real \<Rightarrow> real \<Rightarrow> real \<Rightarrow> real memory \<Rightarrow> real memory" where
  "mat4perspective M vfov aspect znear zfar h =
    (let
      h = mat4identity M h;
      f = 1 / tan (vfov / 2);
      h = wr M 0 (f / aspect) h;
      h = wr M 5 f h;
      h = wr M 10 (- ((zfar + znear) / (zfar - znear))) h;
      h = wr M 11 (- 1) h;
      h = wr M 14 (- ((2 * zfar * znear) / (zfar - znear))) h;
      h = wr M 15 0 h
    in h)"

subsection \<open>The routines that call \<^verbatim>\<open>cos\<close>, \<^verbatim>\<open>sin\<close> and \<^verbatim>\<open>tan\<close>, on \<open>float\<close>\<close>

text \<open>
  The same four routines with \<open>float\<close> parameters and a memory of \<open>float\<close>: the text
  of the source once more, its operators now those of \<open>float\<close>. The literals \<^verbatim>\<open>1.0\<close> and
  \<^verbatim>\<open>2\<close> of \<^verbatim>\<open>mat4perspective\<close> are the finite values \<open>1\<close> and \<open>Finite 2\<close>.
\<close>

definition mat4rotx_float :: "addr \<Rightarrow> float \<Rightarrow> float memory \<Rightarrow> float memory" where
  "mat4rotx_float M angle h =
    (let
      h = mat4identity M h;
      h = wr M 5 (float_cos angle) h;
      h = wr M 6 (float_sin angle) h;
      h = wr M 9 (- float_sin angle) h;
      h = wr M 10 (float_cos angle) h
    in h)"

definition mat4roty_float :: "addr \<Rightarrow> float \<Rightarrow> float memory \<Rightarrow> float memory" where
  "mat4roty_float M angle h =
    (let
      h = mat4identity M h;
      h = wr M 0 (float_cos angle) h;
      h = wr M 2 (- float_sin angle) h;
      h = wr M 8 (float_sin angle) h;
      h = wr M 10 (float_cos angle) h
    in h)"

definition mat4rotz_float :: "addr \<Rightarrow> float \<Rightarrow> float memory \<Rightarrow> float memory" where
  "mat4rotz_float M angle h =
    (let
      h = mat4identity M h;
      h = wr M 0 (float_cos angle) h;
      h = wr M 1 (float_sin angle) h;
      h = wr M 4 (- float_sin angle) h;
      h = wr M 5 (float_cos angle) h
    in h)"

definition mat4perspective_float ::
  "addr \<Rightarrow> float \<Rightarrow> float \<Rightarrow> float \<Rightarrow> float \<Rightarrow> float memory \<Rightarrow> float memory" where
  "mat4perspective_float M vfov aspect znear zfar h =
    (let
      h = mat4identity M h;
      f = 1 / float_tan (vfov / Finite 2);
      h = wr M 0 (f / aspect) h;
      h = wr M 5 f h;
      h = wr M 10 (- ((zfar + znear) / (zfar - znear))) h;
      h = wr M 11 (- 1) h;
      h = wr M 14 (- ((Finite 2 * zfar * znear) / (zfar - znear))) h;
      h = wr M 15 0 h
    in h)"

subsection \<open>The aliased call of \<^verbatim>\<open>main\<close>\<close>

text \<open>
  The render loop of \<^verbatim>\<open>main\<close> builds the model-view matrix of the first object with
  \<^verbatim>\<open>mat4mult(Rz, Rx, MV); mat4translate(T, 0, 0, -5.0); mat4mult(T, MV, MV);\<close>: the last
  call passes \<^verbatim>\<open>MV\<close> both as the second factor and as the output.
\<close>

definition main_modelview ::
  "addr \<Rightarrow> addr \<Rightarrow> addr \<Rightarrow> addr \<Rightarrow> real memory \<Rightarrow> real memory" where
  "main_modelview Rz Rx T MV h =
    (let
      h = mat4mult Rz Rx MV h;
      h = mat4translate T 0 0 (- 5.0) h;
      h = mat4mult T MV MV h
    in h)"

subsection \<open>The matrices of the specification\<close>

text \<open>
  The specification speaks of matrices as values: sixteen numbers in column-major order,
  the element of row \<open>r\<close> and column \<open>c\<close> at index \<open>c * 4 + r\<close>. The product
  \<open>A \<cdot> B\<close> has, in row \<open>r\<close> and column \<open>c\<close>, the sum over \<open>k\<close> of the element
  \<open>(r, k)\<close> of \<open>A\<close> times the element \<open>(k, c)\<close> of \<open>B\<close>. These two definitions
  follow the specification's words, not the code; the code is compared with them.
\<close>

definition identity4 :: "('a::{zero,one}) list" where
  "identity4 = [1, 0, 0, 0,  0, 1, 0, 0,  0, 0, 1, 0,  0, 0, 0, 1]"

definition mat_product :: "('a::{comm_monoid_add,times}) list \<Rightarrow> 'a list \<Rightarrow> 'a list" where
  "mat_product A B =
    map (\<lambda>i. \<Sum>k<4. A ! (k * 4 + i mod 4) * B ! (i div 4 * 4 + k)) [0..<16]"

text \<open>
  Equality within a tolerance, element by element, of two matrices with the same number of
  elements.
\<close>

definition approx_eq :: "real \<Rightarrow> real list \<Rightarrow> real list \<Rightarrow> bool" where
  "approx_eq tol A B = list_all2 (\<lambda>a b. \<bar>a - b\<bar> \<le> tol) A B"

section \<open>Lemmas\<close>

subsection \<open>Sixteen-element lists\<close>

lemma upt_16: "[0..<16] = [0, 1, 2, 3, 4, 5, 6, 7, 8, 9, 10, 11, 12, 13, 14, 15::nat]"
  by (simp add: upt_rec)

lemma replicate_16: "replicate 16 x = [x, x, x, x, x, x, x, x, x, x, x, x, x, x, x, x]"
  by (simp add: eval_nat_numeral)

lemma list_update_Cons_numeral:
  "(x # xs)[numeral v := y] = x # xs[numeral v - 1 := y]"
  by (simp add: numeral_eq_Suc)

lemma sum_lessThan_4: "(\<Sum>k<4. f k) = f 0 + f 1 + f 2 + (f (3::nat) :: 'a::comm_monoid_add)"
  by (simp add: numeral_eq_Suc)

lemma length_16_explicit:
  "length xs = 16 \<Longrightarrow> \<exists>x0 x1 x2 x3 x4 x5 x6 x7 x8 x9 x10 x11 x12 x13 x14 x15.
     xs = [x0, x1, x2, x3, x4, x5, x6, x7, x8, x9, x10, x11, x12, x13, x14, x15]"
  by (simp add: numeral_eq_Suc length_Suc_conv) blast

lemma length_matrix_at [simp]: "length (matrix_at h M) = 16"
  by (simp add: matrix_at_def)

lemma length_mat_product [simp]: "length (mat_product A B) = 16"
  by (simp add: mat_product_def)

lemma nth_matrix_at: "i < 16 \<Longrightarrow> matrix_at h M ! i = h (M + i)"
  by (simp add: matrix_at_def rd_def)

subsection \<open>Memory after a write to one array\<close>

lemma matrix_at_poke_same: "length xs = 16 \<Longrightarrow> matrix_at (poke M xs h) M = xs"
  by (rule nth_equalityI) (simp_all add: nth_matrix_at poke_def)

lemma matrix_at_poke_separate:
  "separate M N \<Longrightarrow> length xs = 16 \<Longrightarrow> matrix_at (poke M xs h) N = matrix_at h N"
  by (rule nth_equalityI) (auto simp: nth_matrix_at poke_def separate_def)

lemma memory_eq_pokeI:
  assumes inside: "matrix_at g M = xs"
    and outside: "\<And>a. a < M \<or> M + 16 \<le> a \<Longrightarrow> g a = h a"
  shows "g = poke M xs h"
proof
  fix a
  have len: "length xs = 16" using inside by auto
  show "g a = poke M xs h a"
  proof (cases "M \<le> a \<and> a < M + 16")
    case True
    then have "a - M < 16" and a: "M + (a - M) = a" by auto
    then have "matrix_at g M ! (a - M) = g a" by (simp add: nth_matrix_at)
    with True len inside show ?thesis by (simp add: poke_def)
  next
    case False
    with outside [of a] len show ?thesis by (auto simp: poke_def)
  qed
qed

subsection \<open>What \<^verbatim>\<open>mat4mult\<close> leaves in memory\<close>

lemma mat4mult_copy_eq:
  "mat4mult_copy i Mtemp Mout h =
    (\<lambda>a. if Mout + i \<le> a \<and> a < Mout + 16 then Mtemp ! (a - Mout) else h a)"
proof (induction i Mtemp Mout h rule: mat4mult_copy.induct)
  case (1 i Mtemp Mout h)
  show ?case
  proof (cases "i < 16")
    case True
    have "mat4mult_copy i Mtemp Mout h =
        mat4mult_copy (i + 1) Mtemp Mout (wr Mout i (Mtemp ! i) h)"
      using True by (subst mat4mult_copy.simps) simp
    also have "\<dots> = (\<lambda>a. if Mout + (i + 1) \<le> a \<and> a < Mout + 16 then Mtemp ! (a - Mout)
        else wr Mout i (Mtemp ! i) h a)"
      using True by (rule 1)
    also have "\<dots> = (\<lambda>a. if Mout + i \<le> a \<and> a < Mout + 16 then Mtemp ! (a - Mout) else h a)"
      using True by (auto simp: fun_eq_iff wr_def)
    finally show ?thesis .
  next
    case False
    then show ?thesis by (subst mat4mult_copy.simps) (auto simp: fun_eq_iff)
  qed
qed

lemma mat4mult_copy_poke:
  "length Mtemp = 16 \<Longrightarrow> mat4mult_copy 0 Mtemp Mout h = poke Mout Mtemp h"
  by (simp add: mat4mult_copy_eq poke_def)

lemma length_mat4mult_fill [simp]: "length (mat4mult_fill h M1 M2 Mtemp) = length Mtemp"
  by (simp add: mat4mult_fill_def Let_def)


lemma mat4mult_fill_explicit:
  "mat4mult_fill h M1 M2 [t0, t1, t2, t3, t4, t5, t6, t7, t8, t9, t10, t11, t12, t13, t14, t15]
    = mat_product (matrix_at h M1) (matrix_at h M2)"
  by (simp add: mat4mult_fill_def mat_product_def matrix_at_def upt_16 sum_lessThan_4
      list_update_Cons_numeral Let_def)

lemma mat4mult_fill_any:
  assumes "length Mtemp = 16"
  shows "mat4mult_fill h M1 M2 Mtemp = mat_product (matrix_at h M1) (matrix_at h M2)"
proof -
  from length_16_explicit [OF assms] obtain t0 t1 t2 t3 t4 t5 t6 t7 t8 t9 t10 t11 t12 t13 t14 t15
    where "Mtemp = [t0, t1, t2, t3, t4, t5, t6, t7, t8, t9, t10, t11, t12, t13, t14, t15]"
    by blast
  then show ?thesis by (simp only: mat4mult_fill_explicit)
qed

lemma mat4mult_poke:
  "mat4mult M1 M2 Mout h = poke Mout (mat_product (matrix_at h M1) (matrix_at h M2)) h"
  by (simp add: mat4mult_def mat4mult_fill_any mat4mult_copy_poke Let_def)

lemma matrix_at_mat4mult:
  "matrix_at (mat4mult M1 M2 Mout h) Mout = mat_product (matrix_at h M1) (matrix_at h M2)"
  by (simp add: mat4mult_poke matrix_at_poke_same)


subsection \<open>What the other routines leave in memory\<close>

lemma matrix_at_mat4identity: "matrix_at (mat4identity M h) M = identity4"
  by (simp add: matrix_at_def mat4identity_def identity4_def rd_def wr_def upt_16 Let_def)

lemma mat4identity_outside: "a < M \<or> M + 16 \<le> a \<Longrightarrow> mat4identity M h a = h a"
  by (auto simp: mat4identity_def wr_def Let_def)

lemma mat4identity_poke: "mat4identity M h = poke M identity4 h"
  by (rule memory_eq_pokeI) (simp_all add: matrix_at_mat4identity mat4identity_outside)

lemma matrix_at_mat4rotx:
  "matrix_at (mat4rotx M angle h) M =
    [1, 0, 0, 0,  0, cos angle, sin angle, 0,  0, - sin angle, cos angle, 0,  0, 0, 0, 1]"
  by (simp add: matrix_at_def mat4rotx_def mat4identity_def rd_def wr_def upt_16 Let_def)

lemma matrix_at_mat4roty:
  "matrix_at (mat4roty M angle h) M =
    [cos angle, 0, - sin angle, 0,  0, 1, 0, 0,  sin angle, 0, cos angle, 0,  0, 0, 0, 1]"
  by (simp add: matrix_at_def mat4roty_def mat4identity_def rd_def wr_def upt_16 Let_def)

lemma matrix_at_mat4rotz:
  "matrix_at (mat4rotz M angle h) M =
    [cos angle, sin angle, 0, 0,  - sin angle, cos angle, 0, 0,  0, 0, 1, 0,  0, 0, 0, 1]"
  by (simp add: matrix_at_def mat4rotz_def mat4identity_def rd_def wr_def upt_16 Let_def)

lemma matrix_at_mat4scale:
  "matrix_at (mat4scale M scale h) M =
    [scale, 0, 0, 0,  0, scale, 0, 0,  0, 0, scale, 0,  0, 0, 0, scale]"
  by (simp add: matrix_at_def mat4scale_def mat4identity_def rd_def wr_def upt_16 Let_def)

lemma matrix_at_mat4translate:
  "matrix_at (mat4translate M x y z h) M =
    [1, 0, 0, 0,  0, 1, 0, 0,  0, 0, 1, 0,  x, y, z, 1]"
  by (simp add: matrix_at_def mat4translate_def mat4identity_def rd_def wr_def upt_16 Let_def)

lemma matrix_at_mat4perspective:
  "matrix_at (mat4perspective M vfov aspect znear zfar h) M =
    [1 / tan (vfov / 2) / aspect, 0, 0, 0,
     0, 1 / tan (vfov / 2), 0, 0,
     0, 0, - ((zfar + znear) / (zfar - znear)), - 1,
     0, 0, - ((2 * zfar * znear) / (zfar - znear)), 0]"
  by (simp add: matrix_at_def mat4perspective_def mat4identity_def rd_def wr_def upt_16 Let_def)

lemma mat4rotx_outside: "a < M \<or> M + 16 \<le> a \<Longrightarrow> mat4rotx M angle h a = h a"
  by (auto simp: mat4rotx_def mat4identity_outside wr_def Let_def)

lemma mat4roty_outside: "a < M \<or> M + 16 \<le> a \<Longrightarrow> mat4roty M angle h a = h a"
  by (auto simp: mat4roty_def mat4identity_outside wr_def Let_def)

lemma mat4rotz_outside: "a < M \<or> M + 16 \<le> a \<Longrightarrow> mat4rotz M angle h a = h a"
  by (auto simp: mat4rotz_def mat4identity_outside wr_def Let_def)

lemma mat4scale_outside: "a < M \<or> M + 16 \<le> a \<Longrightarrow> mat4scale M scale h a = h a"
  by (auto simp: mat4scale_def mat4identity_outside wr_def Let_def)

lemma mat4translate_outside: "a < M \<or> M + 16 \<le> a \<Longrightarrow> mat4translate M x y z h a = h a"
  by (auto simp: mat4translate_def mat4identity_outside wr_def Let_def)

lemma mat4perspective_outside:
  "a < M \<or> M + 16 \<le> a \<Longrightarrow> mat4perspective M vfov aspect znear zfar h a = h a"
  by (auto simp: mat4perspective_def mat4identity_outside wr_def Let_def)

lemma matrix_at_outside:
  assumes "separate M N" and "\<And>a. a < M \<or> M + 16 \<le> a \<Longrightarrow> g a = h a"
  shows "matrix_at g N = matrix_at h N"
proof (rule nth_equalityI)
  show "length (matrix_at g N) = length (matrix_at h N)" by simp
next
  fix i assume "i < length (matrix_at g N)"
  then have i: "i < 16" by simp
  with assms(1) have "N + i < M \<or> M + 16 \<le> N + i" by (auto simp: separate_def)
  then have "g (N + i) = h (N + i)" by (rule assms(2))
  with i show "matrix_at g N ! i = matrix_at h N ! i" by (simp add: nth_matrix_at)
qed

subsection \<open>The algebra of the product\<close>




lemma mat_product_explicit:
  "mat_product [a0, a1, a2, a3, a4, a5, a6, a7, a8, a9, a10, a11, a12, a13, a14, a15]
      [b0, b1, b2, b3, b4, b5, b6, b7, b8, b9, b10, b11, b12, b13, b14, b15] =
    [a0 * b0 + a4 * b1 + a8 * b2 + a12 * b3,
     a1 * b0 + a5 * b1 + a9 * b2 + a13 * b3,
     a2 * b0 + a6 * b1 + a10 * b2 + a14 * b3,
     a3 * b0 + a7 * b1 + a11 * b2 + a15 * b3,
     a0 * b4 + a4 * b5 + a8 * b6 + a12 * b7,
     a1 * b4 + a5 * b5 + a9 * b6 + a13 * b7,
     a2 * b4 + a6 * b5 + a10 * b6 + a14 * b7,
     a3 * b4 + a7 * b5 + a11 * b6 + a15 * b7,
     a0 * b8 + a4 * b9 + a8 * b10 + a12 * b11,
     a1 * b8 + a5 * b9 + a9 * b10 + a13 * b11,
     a2 * b8 + a6 * b9 + a10 * b10 + a14 * b11,
     a3 * b8 + a7 * b9 + a11 * b10 + a15 * b11,
     a0 * b12 + a4 * b13 + a8 * b14 + a12 * b15,
     a1 * b12 + a5 * b13 + a9 * b14 + a13 * b15,
     a2 * b12 + a6 * b13 + a10 * b14 + a14 * b15,
     a3 * b12 + a7 * b13 + a11 * b14 + a15 * b15]"
  by (simp add: mat_product_def upt_16 sum_lessThan_4)

lemma mat_product_identity4_left:
  fixes A :: "real list"
  assumes "length A = 16"
  shows "mat_product identity4 A = A"
proof -
  from length_16_explicit [OF assms] obtain a0 a1 a2 a3 a4 a5 a6 a7 a8 a9 a10 a11 a12 a13 a14 a15
    where "A = [a0, a1, a2, a3, a4, a5, a6, a7, a8, a9, a10, a11, a12, a13, a14, a15]"
    by blast
  then show ?thesis by (simp add: identity4_def mat_product_explicit)
qed

lemma mat_product_identity4_right:
  fixes A :: "real list"
  assumes "length A = 16"
  shows "mat_product A identity4 = A"
proof -
  from length_16_explicit [OF assms] obtain a0 a1 a2 a3 a4 a5 a6 a7 a8 a9 a10 a11 a12 a13 a14 a15
    where "A = [a0, a1, a2, a3, a4, a5, a6, a7, a8, a9, a10, a11, a12, a13, a14, a15]"
    by blast
  then show ?thesis by (simp add: identity4_def mat_product_explicit)
qed

lemma rotz_inverse:
  "mat_product
    [cos t, sin t, 0, 0,  - sin t, cos t, 0, 0,  0, 0, 1, 0,  0, 0, 0, 1]
    [cos (- t), sin (- t), 0, 0,  - sin (- t), cos (- t), 0, 0,  0, 0, 1, 0,  0, 0, 0, 1]
   = identity4" for t :: real
  by (simp add: mat_product_explicit identity4_def flip: power2_eq_square)

lemma roty_inverse:
  "mat_product
    [cos t, 0, - sin t, 0,  0, 1, 0, 0,  sin t, 0, cos t, 0,  0, 0, 0, 1]
    [cos (- t), 0, - sin (- t), 0,  0, 1, 0, 0,  sin (- t), 0, cos (- t), 0,  0, 0, 0, 1]
   = identity4" for t :: real
  by (simp add: mat_product_explicit identity4_def flip: power2_eq_square)

subsection \<open>Further lemmas\<close>

text \<open>The memory whose cell at address \<open>a\<close> holds the number \<open>a\<close> serves as a concrete input.\<close>

lemma matrix_at_real: "matrix_at real M = map (\<lambda>i. real (M + i)) [0..<16]"
  by (simp add: matrix_at_def rd_def)

lemma approx_eq_refl: "0 \<le> tol \<Longrightarrow> approx_eq tol A A"
  by (simp add: approx_eq_def list_all2_same)

lemma matrix_at_main_modelview:
  assumes "separate T MV"
  shows "matrix_at (main_modelview Rz Rx T MV h) MV =
    mat_product [1, 0, 0, 0,  0, 1, 0, 0,  0, 0, 1, 0,  0, 0, - 5, 1]
      (mat_product (matrix_at h Rz) (matrix_at h Rx))"
proof -
  let ?h1 = "mat4mult Rz Rx MV h"
  let ?h2 = "mat4translate T 0 0 (- 5.0) ?h1"
  have "matrix_at ?h2 MV = matrix_at ?h1 MV"
    using assms by (rule matrix_at_outside) (rule mat4translate_outside)
  then show ?thesis
    by (simp add: main_modelview_def Let_def matrix_at_mat4mult matrix_at_mat4translate)
qed

subsection \<open>The arithmetic of \<open>float\<close>\<close>

lemmas float_ops =
  zero_float_def one_float_def plus_float_def times_float_def uminus_float_def
  minus_float_def divide_float_def




lemma list_all_is_Finite:
  assumes "list_all is_Finite xs"
  shows "\<exists>rs. xs = map Finite rs"
proof -
  have "\<forall>x \<in> set xs. \<exists>r. x = Finite r"
    using assms by (auto simp: list_all_iff is_Finite_def)
  then have "xs = map Finite (map (\<lambda>x. case x of Finite r \<Rightarrow> r | _ \<Rightarrow> 0) xs)"
    by (induction xs) auto
  then show ?thesis ..
qed

subsection \<open>The two number types agree on finite values\<close>

lemma poke_finite: "poke M (map Finite xs) (finite_memory h) = finite_memory (poke M xs h)"
  by (auto simp: poke_def finite_memory_def fun_eq_iff)

lemma matrix_at_finite: "matrix_at (finite_memory h) M = map Finite (matrix_at h M)"
  by (simp add: matrix_at_def rd_def finite_memory_def)

lemma mat_product_finite:
  assumes "length A = 16" and "length B = 16"
  shows "mat_product (map Finite A) (map Finite B) = map Finite (mat_product A B)"
proof -
  from length_16_explicit [OF assms(1)] obtain a0 a1 a2 a3 a4 a5 a6 a7 a8 a9 a10 a11 a12 a13 a14 a15
    where A: "A = [a0, a1, a2, a3, a4, a5, a6, a7, a8, a9, a10, a11, a12, a13, a14, a15]"
    by blast
  from length_16_explicit [OF assms(2)] obtain b0 b1 b2 b3 b4 b5 b6 b7 b8 b9 b10 b11 b12 b13 b14 b15
    where B: "B = [b0, b1, b2, b3, b4, b5, b6, b7, b8, b9, b10, b11, b12, b13, b14, b15]"
    by blast
  show ?thesis
    unfolding A B by (simp add: mat_product_explicit float_ops)
qed

lemma mat4mult_finite:
  "mat4mult M1 M2 Mout (finite_memory h) = finite_memory (mat4mult M1 M2 Mout h)"
  by (simp add: mat4mult_poke matrix_at_finite mat_product_finite poke_finite)

lemma mat4identity_finite: "mat4identity M (finite_memory h) = finite_memory (mat4identity M h)"
  by (simp add: mat4identity_def wr_def Let_def finite_memory_def float_ops fun_eq_iff)

lemma mat4scale_finite:
  "mat4scale M (Finite scale) (finite_memory h) = finite_memory (mat4scale M scale h)"
  by (simp add: mat4scale_def mat4identity_def wr_def Let_def finite_memory_def float_ops fun_eq_iff)

lemma mat4translate_finite:
  "mat4translate M (Finite x) (Finite y) (Finite z) (finite_memory h) =
    finite_memory (mat4translate M x y z h)"
  by (simp add: mat4translate_def mat4identity_def wr_def Let_def finite_memory_def float_ops
      fun_eq_iff)

lemma mat4rotx_float_finite:
  "mat4rotx_float M (Finite angle) (finite_memory h) = finite_memory (mat4rotx M angle h)"
  by (simp add: mat4rotx_float_def mat4rotx_def mat4identity_def wr_def Let_def finite_memory_def
      float_ops fun_eq_iff)

lemma mat4roty_float_finite:
  "mat4roty_float M (Finite angle) (finite_memory h) = finite_memory (mat4roty M angle h)"
  by (simp add: mat4roty_float_def mat4roty_def mat4identity_def wr_def Let_def finite_memory_def
      float_ops fun_eq_iff)

lemma mat4rotz_float_finite:
  "mat4rotz_float M (Finite angle) (finite_memory h) = finite_memory (mat4rotz M angle h)"
  by (simp add: mat4rotz_float_def mat4rotz_def mat4identity_def wr_def Let_def finite_memory_def
      float_ops fun_eq_iff)

lemma mat4perspective_float_finite:
  assumes "tan (vfov / 2) \<noteq> 0" and "aspect \<noteq> 0" and "zfar \<noteq> znear"
  shows "mat4perspective_float M (Finite vfov) (Finite aspect) (Finite znear) (Finite zfar)
      (finite_memory h) = finite_memory (mat4perspective M vfov aspect znear zfar h)"
  using assms
  by (simp add: mat4perspective_float_def mat4perspective_def mat4identity_def wr_def Let_def
      finite_memory_def float_ops fun_eq_iff)

subsection \<open>What the routines on \<open>float\<close> leave in memory\<close>




lemma matrix_at_mat4perspective_float:
  "matrix_at (mat4perspective_float M vfov aspect znear zfar h) M =
    [1 / float_tan (vfov / Finite 2) / aspect, 0, 0, 0,
     0, 1 / float_tan (vfov / Finite 2), 0, 0,
     0, 0, - ((zfar + znear) / (zfar - znear)), - 1,
     0, 0, - ((Finite 2 * zfar * znear) / (zfar - znear)), 0]"
  by (simp add: matrix_at_def mat4perspective_float_def mat4identity_def rd_def wr_def upt_16
      Let_def)

lemma mat_product_identity4_finite:
  assumes "length xs = 16"
  shows "mat_product identity4 (map Finite xs) = map Finite xs"
    and "mat_product (map Finite xs) identity4 = map Finite xs"
proof -
  from length_16_explicit [OF assms] obtain a0 a1 a2 a3 a4 a5 a6 a7 a8 a9 a10 a11 a12 a13 a14 a15
    where xs: "xs = [a0, a1, a2, a3, a4, a5, a6, a7, a8, a9, a10, a11, a12, a13, a14, a15]"
    by blast
  show "mat_product identity4 (map Finite xs) = map Finite xs"
    unfolding xs by (simp add: identity4_def mat_product_explicit float_ops)
  show "mat_product (map Finite xs) identity4 = map Finite xs"
    unfolding xs by (simp add: identity4_def mat_product_explicit float_ops)
qed

section \<open>The claims\<close>

subsection \<open>C1: the output of \<^verbatim>\<open>mat4mult\<close> may alias its inputs\<close>

text \<open>
  C1. For all matrices \<open>A\<close> and \<open>B\<close> in memory, \<^verbatim>\<open>mat4mult(A, B, Mout)\<close> leaves the
  product \<open>A \<cdot> B\<close> (as the specification defines it) at \<open>Mout\<close>, wherever
  \<open>Mout\<close> points: a call whose output is its first factor, its second factor, or both,
  leaves the same sixteen elements as a call with any other output array. The reason is
  that the routine is the copy of a temporary computed on the memory the call starts with.
  So does the aliased call of \<^verbatim>\<open>main\<close>. Every routine that produces a matrix writes all
  sixteen elements: the matrix it leaves does not depend on what the output array held
  before (for \<^verbatim>\<open>mat4mult\<close>, when the output array is none of its inputs), nor, for the
  routines without matrix inputs, on anything else in memory.
\<close>

theorem mat4mult_aliasing:
  "matrix_at (mat4mult A B Mout h) Mout = mat_product (matrix_at h A) (matrix_at h B)
   \<and> matrix_at (mat4mult A B A h) A = matrix_at (mat4mult A B Mout h) Mout
   \<and> matrix_at (mat4mult A B B h) B = matrix_at (mat4mult A B Mout h) Mout
   \<and> matrix_at (mat4mult A A A h) A = matrix_at (mat4mult A A Mout h) Mout
   \<and> mat4mult A B Mout h = poke Mout (mat4mult_fill h A B (replicate 16 0)) h
   \<and> (separate T MV \<longrightarrow>
        matrix_at (main_modelview Rz Rx T MV h) MV =
          mat_product [1, 0, 0, 0,  0, 1, 0, 0,  0, 0, 1, 0,  0, 0, - 5, 1]
            (mat_product (matrix_at h Rz) (matrix_at h Rx)))
   \<and> (separate Mout A \<and> separate Mout B \<and> length xs = 16 \<longrightarrow>
        matrix_at (mat4mult A B Mout (poke Mout xs h)) Mout = matrix_at (mat4mult A B Mout h) Mout)
   \<and> matrix_at (mat4identity M h) M = matrix_at (mat4identity M h') M
   \<and> matrix_at (mat4rotx M angle h) M = matrix_at (mat4rotx M angle h') M
   \<and> matrix_at (mat4roty M angle h) M = matrix_at (mat4roty M angle h') M
   \<and> matrix_at (mat4rotz M angle h) M = matrix_at (mat4rotz M angle h') M
   \<and> matrix_at (mat4scale M factor h) M = matrix_at (mat4scale M factor h') M
   \<and> matrix_at (mat4translate M x y z h) M = matrix_at (mat4translate M x y z h') M
   \<and> matrix_at (mat4perspective M fov aspect znear zfar h) M =
       matrix_at (mat4perspective M fov aspect znear zfar h') M"
proof (intro conjI impI)
  show "mat4mult A B Mout h = poke Mout (mat4mult_fill h A B (replicate 16 0)) h"
    by (simp add: mat4mult_poke mat4mult_fill_any)
next
  assume "separate T MV"
  then show "matrix_at (main_modelview Rz Rx T MV h) MV =
      mat_product [1, 0, 0, 0,  0, 1, 0, 0,  0, 0, 1, 0,  0, 0, - 5, 1]
        (mat_product (matrix_at h Rz) (matrix_at h Rx))"
    by (rule matrix_at_main_modelview)
next
  assume "separate Mout A \<and> separate Mout B \<and> length xs = 16"
  then show "matrix_at (mat4mult A B Mout (poke Mout xs h)) Mout = matrix_at (mat4mult A B Mout h) Mout"
    by (simp add: matrix_at_mat4mult matrix_at_poke_separate)
qed (simp_all only: matrix_at_mat4mult matrix_at_mat4identity matrix_at_mat4rotx
    matrix_at_mat4roty matrix_at_mat4rotz matrix_at_mat4scale matrix_at_mat4translate
    matrix_at_mat4perspective)

theorem mat4mult_aliasing_witness:
  "separate 32 16 \<and> separate 0 16 \<and> separate 0 32 \<and> length (replicate 16 (7::real)) = 16
   \<and> matrix_at (main_modelview 32 48 0 16 real) 16 =
      [7544, 7742, - 32750, 8138,  8152, 8366, - 35390, 8794,  8760, 8990, - 38030, 9450,
       9368, 9614, - 40670, 10106]
   \<and> matrix_at (mat4mult 16 32 0 (poke 0 (replicate 16 7) real)) 0 = matrix_at (mat4mult 16 32 0 real) 0"
  using mat4mult_aliasing [where T = 0 and MV = 16 and Rz = 32 and Rx = 48 and h = real
      and Mout = 0 and A = 16 and B = 32 and xs = "replicate 16 7"]
  apply (simp add: separate_def)
  apply (simp add: matrix_at_real upt_16 mat_product_explicit)
  done

subsection \<open>C2: the elements \<^verbatim>\<open>mat4perspective\<close> writes\<close>

text \<open>
  C2. For all inputs with \<open>zFar \<noteq> zNear\<close>, \<open>0 < fov < \<pi>\<close> and \<open>0 < aspect\<close>, no
  divisor of \<^verbatim>\<open>mat4perspective\<close> is zero, and with \<open>f = 1 / tan (fov / 2)\<close> the matrix it
  leaves at \<open>M\<close> is the identity matrix with element 0 replaced by \<open>f / aspect\<close>,
  element 5 by \<open>f\<close>, element 10 by \<open>- (zFar + zNear) / (zFar - zNear)\<close>, element 11 by
  \<open>- 1\<close>, element 14 by \<open>- (2 \<cdot> zFar \<cdot> zNear) / (zFar - zNear)\<close> and element 15 by \<open>0\<close>; every
  other element is that of the identity. In particular, for the inputs
  \<open>(\<pi> / 2, 1.0, 0.1, 100.0)\<close> elements 0 and 5 are \<open>1.0\<close>, element 10 is within
  \<open>0.0001\<close> of \<open>- 1.002002\<close>, element 11 is \<open>- 1\<close>, element 14 is within \<open>0.0001\<close> of
  \<open>- 0.2002002\<close> and element 15 is \<open>0\<close>.
\<close>

theorem mat4perspective_elements:
  "(zFar \<noteq> zNear \<and> 0 < fov \<and> fov < pi \<and> 0 < aspect \<longrightarrow>
      tan (fov / 2) \<noteq> 0 \<and> aspect \<noteq> 0 \<and> zFar - zNear \<noteq> 0
      \<and> matrix_at (mat4perspective M fov aspect zNear zFar h) M =
          (let f = 1 / tan (fov / 2) in
            (matrix_at (mat4identity N g) N)
              [0 := f / aspect,
               5 := f,
               10 := - ((zFar + zNear) / (zFar - zNear)),
               11 := - 1,
               14 := - ((2 * zFar * zNear) / (zFar - zNear)),
               15 := 0])
      \<and> matrix_at (mat4perspective M fov aspect zNear zFar h) M =
          (let f = 1 / tan (fov / 2) in
            [f / aspect, 0, 0, 0,
             0, f, 0, 0,
             0, 0, - ((zFar + zNear) / (zFar - zNear)), - 1,
             0, 0, - ((2 * zFar * zNear) / (zFar - zNear)), 0]))
   \<and> (let P = matrix_at (mat4perspective M (pi / 2) 1.0 0.1 100.0 h) M in
        P ! 0 = 1.0 \<and> P ! 5 = 1.0 \<and> \<bar>P ! 10 - (- 1.002002)\<bar> \<le> 0.0001 \<and> P ! 11 = - 1
        \<and> \<bar>P ! 14 - (- 0.2002002)\<bar> \<le> 0.0001 \<and> P ! 15 = 0)"
proof (intro conjI impI)
  assume pre: "zFar \<noteq> zNear \<and> 0 < fov \<and> fov < pi \<and> 0 < aspect"
  then have "0 < fov / 2" and "fov / 2 < pi / 2" by simp_all
  then have "0 < tan (fov / 2)" by (rule tan_gt_zero)
  then show "tan (fov / 2) \<noteq> 0" by simp
  from pre show "aspect \<noteq> 0" and "zFar - zNear \<noteq> 0" by simp_all
next
  show "matrix_at (mat4perspective M fov aspect zNear zFar h) M =
      (let f = 1 / tan (fov / 2) in
        (matrix_at (mat4identity N g) N)
          [0 := f / aspect, 5 := f, 10 := - ((zFar + zNear) / (zFar - zNear)), 11 := - 1,
           14 := - ((2 * zFar * zNear) / (zFar - zNear)), 15 := 0])"
    by (simp add: matrix_at_mat4perspective matrix_at_mat4identity identity4_def
        list_update_Cons_numeral Let_def)
next
  show "matrix_at (mat4perspective M fov aspect zNear zFar h) M =
      (let f = 1 / tan (fov / 2) in
        [f / aspect, 0, 0, 0,  0, f, 0, 0,  0, 0, - ((zFar + zNear) / (zFar - zNear)), - 1,
         0, 0, - ((2 * zFar * zNear) / (zFar - zNear)), 0])"
    by (simp add: matrix_at_mat4perspective Let_def)
next
  have "pi / 2 / 2 = pi / 4" by simp
  then have "tan (pi / 2 / 2) = 1" by (simp only: tan_45)
  then show "let P = matrix_at (mat4perspective M (pi / 2) 1.0 0.1 100.0 h) M in
      P ! 0 = 1.0 \<and> P ! 5 = 1.0 \<and> \<bar>P ! 10 - (- 1.002002)\<bar> \<le> 0.0001 \<and> P ! 11 = - 1
      \<and> \<bar>P ! 14 - (- 0.2002002)\<bar> \<le> 0.0001 \<and> P ! 15 = 0"
    by (simp add: matrix_at_mat4perspective Let_def)
qed

theorem mat4perspective_elements_witness:
  "((100.0::real) \<noteq> 0.1 \<and> (0::real) < pi / 2 \<and> pi / 2 < pi \<and> (0::real) < 1.0)
   \<and> matrix_at (mat4perspective 0 (pi / 2) 1.0 0.1 100.0 real) 0 =
       [1, 0, 0, 0,  0, 1, 0, 0,  0, 0, - (1001 / 999), - 1,  0, 0, - (200 / 999), 0]"
proof -
  have "pi / 2 / 2 = pi / 4" by simp
  then have "tan (pi / 2 / 2) = 1" by (simp only: tan_45)
  with mat4perspective_elements [where zFar = "100.0" and zNear = "0.1" and fov = "pi / 2"
      and aspect = "1.0" and M = 0 and h = real]
  show ?thesis by (simp add: Let_def)
qed

subsection \<open>C3: \<^verbatim>\<open>mat4scale\<close> scales the whole diagonal\<close>

text \<open>
  C3. For every scalar \<open>factor\<close>, \<^verbatim>\<open>mat4scale(M, factor)\<close> leaves at \<open>M\<close> the identity
  matrix with the elements 0, 5, 10 and 15 replaced by \<open>factor\<close>: every element off the
  diagonal is \<open>0\<close>, and element 15, the homogeneous component, is \<open>factor\<close> and not
  \<open>1\<close>.
\<close>

theorem mat4scale_diagonal:
  "matrix_at (mat4scale M factor h) M =
      [factor, 0, 0, 0,  0, factor, 0, 0,  0, 0, factor, 0,  0, 0, 0, factor]
   \<and> matrix_at (mat4scale M factor h) M =
      (matrix_at (mat4identity N g) N)[0 := factor, 5 := factor, 10 := factor, 15 := factor]
   \<and> matrix_at (mat4scale M factor h) M ! 15 = factor"
proof (intro conjI)
  show elements: "matrix_at (mat4scale M factor h) M =
      [factor, 0, 0, 0,  0, factor, 0, 0,  0, 0, factor, 0,  0, 0, 0, factor]"
    by (rule matrix_at_mat4scale)
  have "(matrix_at (mat4identity N g) N)[0 := factor, 5 := factor, 10 := factor, 15 := factor] =
      [factor, 0, 0, 0,  0, factor, 0, 0,  0, 0, factor, 0,  0, 0, 0, factor]"
    by (simp add: matrix_at_mat4identity identity4_def list_update_Cons_numeral)
  with elements show "matrix_at (mat4scale M factor h) M =
      (matrix_at (mat4identity N g) N)[0 := factor, 5 := factor, 10 := factor, 15 := factor]"
    by simp
  from elements show "matrix_at (mat4scale M factor h) M ! 15 = factor"
    by simp
qed

theorem mat4scale_diagonal_witness:
  "matrix_at (mat4scale 0 3 real) 0 = [3, 0, 0, 0,  0, 3, 0, 0,  0, 0, 3, 0,  0, 0, 0, 3]
   \<and> matrix_at (mat4scale 0 3 real) 0 ! 15 = 3"
  using mat4scale_diagonal [of 0 3 real] by simp

subsection \<open>C4: the identity matrix is neutral for \<^verbatim>\<open>mat4mult\<close> on finite matrices\<close>

text \<open>
  C4. Let the array \<open>I\<close> hold the matrix written by \<^verbatim>\<open>mat4identity\<close> and let \<open>M\<close> be a
  matrix in another array whose sixteen elements are finite. Then \<^verbatim>\<open>mat4mult(I, M, Mout)\<close>
  and \<^verbatim>\<open>mat4mult(M, I, Mout)\<close> both leave at \<open>Mout\<close> exactly the sixteen elements of \<open>M\<close>,
  wherever \<open>Mout\<close> points. In particular the product of the matrix written by
  \<^verbatim>\<open>mat4translate(T, 1, 2, 3)\<close> with the identity is exactly that matrix. (The statement is
  over \<open>float\<close>. For a matrix with an infinite element it fails, as shown after the
  theorem: the routine multiplies the zeros of the identity with every element of a
  column, and \<open>0 \<cdot> \<infinity>\<close> is NaN.)
\<close>

theorem mat4identity_neutral_finite:
  "(separate I M \<and> list_all is_Finite (matrix_at h M) \<longrightarrow>
      matrix_at (mat4mult I M Mout (mat4identity I h)) Mout = matrix_at h M
      \<and> matrix_at (mat4mult M I Mout (mat4identity I h)) Mout = matrix_at h M)
   \<and> (separate I T \<longrightarrow>
      matrix_at
        (mat4mult T I Mout (mat4identity I (mat4translate T (Finite 1) (Finite 2) (Finite 3) h)))
        Mout =
        matrix_at (mat4translate T (Finite 1) (Finite 2) (Finite 3) h) T
      \<and> matrix_at
        (mat4mult T I Mout (mat4identity I (mat4translate T (Finite 1) (Finite 2) (Finite 3) h)))
        Mout =
        [1, 0, 0, 0,  0, 1, 0, 0,  0, 0, 1, 0,  Finite 1, Finite 2, Finite 3, 1])"
proof -
  have keep: "matrix_at (mat4identity I g) N = matrix_at g N"
    if "separate I N" for N and g :: "float memory"
    using that by (rule matrix_at_outside) (rule mat4identity_outside)
  have neutral:
    "matrix_at (mat4mult I N Mout (mat4identity I g)) Mout = matrix_at g N
     \<and> matrix_at (mat4mult N I Mout (mat4identity I g)) Mout = matrix_at g N"
    if sep: "separate I N" and fin: "list_all is_Finite (matrix_at g N)"
    for N and g :: "float memory"
  proof -
    from list_all_is_Finite [OF fin] obtain rs where rs: "matrix_at g N = map Finite rs" ..
    then have "length (map Finite rs) = 16" by (metis length_matrix_at)
    then have len: "length rs = 16" by simp
    show ?thesis
      by (simp add: matrix_at_mat4mult matrix_at_mat4identity keep [OF sep] rs
          mat_product_identity4_finite [OF len])
  qed
  have translate: "matrix_at (mat4translate T (Finite 1) (Finite 2) (Finite 3) h) T =
      [1, 0, 0, 0,  0, 1, 0, 0,  0, 0, 1, 0,  Finite 1, Finite 2, Finite 3, 1]"
    by (rule matrix_at_mat4translate)
  then have "list_all is_Finite (matrix_at (mat4translate T (Finite 1) (Finite 2) (Finite 3) h) T)"
    by (simp add: float_ops)
  with neutral [of T "mat4translate T (Finite 1) (Finite 2) (Finite 3) h"] neutral [of M h] translate
  show ?thesis by simp
qed

theorem mat4identity_neutral_finite_witness:
  "separate 0 16 \<and> list_all is_Finite (matrix_at (finite_memory real) 16)
   \<and> matrix_at (mat4mult 0 16 32 (mat4identity 0 (finite_memory real))) 32 =
       map Finite [16, 17, 18, 19,  20, 21, 22, 23,  24, 25, 26, 27,  28, 29, 30, 31]
   \<and> matrix_at (mat4mult 16 0 32 (mat4identity 0 (finite_memory real))) 32 =
       map Finite [16, 17, 18, 19,  20, 21, 22, 23,  24, 25, 26, 27,  28, 29, 30, 31]
   \<and> matrix_at
        (mat4mult 16 0 32
          (mat4identity 0 (mat4translate 16 (Finite 1) (Finite 2) (Finite 3) (finite_memory real))))
        32 =
       [1, 0, 0, 0,  0, 1, 0, 0,  0, 0, 1, 0,  Finite 1, Finite 2, Finite 3, 1]"
proof -
  have m: "matrix_at (finite_memory real) 16 =
      map Finite [16, 17, 18, 19,  20, 21, 22, 23,  24, 25, 26, 27,  28, 29, 30, 31]"
    by (simp add: matrix_at_finite matrix_at_real upt_16)
  have sep: "separate 0 16" by (simp add: separate_def)
  have fin: "list_all is_Finite (matrix_at (finite_memory real) 16)" by (simp add: m)
  from sep fin m
    mat4identity_neutral_finite [where I = 0 and M = 16 and h = "finite_memory real"
      and Mout = 32 and T = 16]
  show ?thesis by (simp add: matrix_at_mat4translate)
qed

text \<open>
  The matrix that \<^verbatim>\<open>mat4perspective\<close> leaves for \<open>zfar = znear = 100\<close> (with \<open>fov = \<pi> / 2\<close> and
  \<open>aspect = 1\<close>) has \<open>-\<infinity>\<close> at the indices 10 and 14. Its product with the identity has NaN at
  index 8, where the matrix has \<open>0\<close>: the assignment to \<^verbatim>\<open>Mtemp[8]\<close> adds \<open>0 \<cdot> (-\<infinity>)\<close>.
\<close>

theorem mat4identity_neutral_counterexample:
  "separate 0 16
   \<and> matrix_at
        (mat4identity 0
          (mat4perspective_float 16 (Finite (pi / 2)) 1 (Finite 100) (Finite 100)
            (finite_memory real)))
        16 =
       [1, 0, 0, 0,  0, 1, 0, 0,  0, 0, NInf, - 1,  0, 0, NInf, 0]
   \<and> matrix_at
        (mat4mult 0 16 32
          (mat4identity 0
            (mat4perspective_float 16 (Finite (pi / 2)) 1 (Finite 100) (Finite 100)
              (finite_memory real))))
        32 =
       [1, 0, 0, 0,  0, 1, 0, 0,  NaN, NaN, NInf, NaN,  NaN, NaN, NInf, NaN]
   \<and> matrix_at
        (mat4mult 0 16 32
          (mat4identity 0
            (mat4perspective_float 16 (Finite (pi / 2)) 1 (Finite 100) (Finite 100)
              (finite_memory real))))
        32 \<noteq>
      matrix_at
        (mat4identity 0
          (mat4perspective_float 16 (Finite (pi / 2)) 1 (Finite 100) (Finite 100)
            (finite_memory real)))
        16"
proof -
  let ?h = "mat4perspective_float 16 (Finite (pi / 2)) 1 (Finite 100) (Finite 100)
      (finite_memory real)"
  have sep: "separate 0 16" by (simp add: separate_def)
  have "matrix_at (mat4identity 0 ?h) 16 = matrix_at ?h 16"
    using sep by (rule matrix_at_outside) (rule mat4identity_outside)
  then have m: "matrix_at (mat4identity 0 ?h) 16 =
      [1, 0, 0, 0,  0, 1, 0, 0,  0, 0, NInf, - 1,  0, 0, NInf, 0]"
    by (simp add: matrix_at_mat4perspective_float float_ops tan_45)
  have "matrix_at (mat4mult 0 16 32 (mat4identity 0 ?h)) 32 =
      mat_product identity4 [1, 0, 0, 0,  0, 1, 0, 0,  0, 0, NInf, - 1,  0, 0, NInf, 0]"
    by (simp only: matrix_at_mat4mult matrix_at_mat4identity m)
  then have p: "matrix_at (mat4mult 0 16 32 (mat4identity 0 ?h)) 32 =
      [1, 0, 0, 0,  0, 1, 0, 0,  NaN, NaN, NInf, NaN,  NaN, NaN, NInf, NaN]"
    by (simp add: identity4_def mat_product_explicit float_ops)
  have "matrix_at (mat4mult 0 16 32 (mat4identity 0 ?h)) 32 \<noteq> matrix_at (mat4identity 0 ?h) 16"
    unfolding p m by (simp add: float_ops)
  with sep m p show ?thesis by simp
qed

subsection \<open>C5: the rotation blocks\<close>

text \<open>
  C5. For every \<open>angle\<close>, each of \<^verbatim>\<open>mat4rotx\<close>, \<^verbatim>\<open>mat4roty\<close> and \<^verbatim>\<open>mat4rotz\<close> leaves at
  \<open>M\<close> the identity matrix with four elements replaced and every other element unchanged:
  \<^verbatim>\<open>mat4rotx\<close> sets element 5 to \<open>cos\<close>, 6 to \<open>sin\<close>, 9 to \<open>- sin\<close> and 10 to \<open>cos\<close>;
  \<^verbatim>\<open>mat4roty\<close> sets element 0 to \<open>cos\<close>, 2 to \<open>- sin\<close>, 8 to \<open>sin\<close> and 10 to \<open>cos\<close>;
  \<^verbatim>\<open>mat4rotz\<close> sets element 0 to \<open>cos\<close>, 1 to \<open>sin\<close>, 4 to \<open>- sin\<close> and 5 to \<open>cos\<close>
  (column-major: the element of row \<open>r\<close> and column \<open>c\<close> has index \<open>c * 4 + r\<close>).
\<close>

theorem mat4rot_blocks:
  "matrix_at (mat4rotx M angle h) M =
      (matrix_at (mat4identity N g) N)
        [5 := cos angle, 6 := sin angle, 9 := - sin angle, 10 := cos angle]
   \<and> matrix_at (mat4roty M angle h) M =
      (matrix_at (mat4identity N g) N)
        [0 := cos angle, 2 := - sin angle, 8 := sin angle, 10 := cos angle]
   \<and> matrix_at (mat4rotz M angle h) M =
      (matrix_at (mat4identity N g) N)
        [0 := cos angle, 1 := sin angle, 4 := - sin angle, 5 := cos angle]
   \<and> matrix_at (mat4rotx M angle h) M =
      [1, 0, 0, 0,  0, cos angle, sin angle, 0,  0, - sin angle, cos angle, 0,  0, 0, 0, 1]
   \<and> matrix_at (mat4roty M angle h) M =
      [cos angle, 0, - sin angle, 0,  0, 1, 0, 0,  sin angle, 0, cos angle, 0,  0, 0, 0, 1]
   \<and> matrix_at (mat4rotz M angle h) M =
      [cos angle, sin angle, 0, 0,  - sin angle, cos angle, 0, 0,  0, 0, 1, 0,  0, 0, 0, 1]"
  by (simp add: matrix_at_mat4rotx matrix_at_mat4roty matrix_at_mat4rotz matrix_at_mat4identity
      identity4_def list_update_Cons_numeral)

theorem mat4rot_blocks_witness:
  "matrix_at (mat4rotx 0 (pi / 2) real) 0 = [1, 0, 0, 0,  0, 0, 1, 0,  0, - 1, 0, 0,  0, 0, 0, 1]
   \<and> matrix_at (mat4roty 0 (pi / 2) real) 0 = [0, 0, - 1, 0,  0, 1, 0, 0,  1, 0, 0, 0,  0, 0, 0, 1]
   \<and> matrix_at (mat4rotz 0 (pi / 2) real) 0 = [0, 1, 0, 0,  - 1, 0, 0, 0,  0, 0, 1, 0,  0, 0, 0, 1]"
  using mat4rot_blocks [of 0 "pi / 2" real] by simp

subsection \<open>C6: \<^verbatim>\<open>mat4translate\<close> fills the last column\<close>

text \<open>
  C6. For all scalars \<open>x\<close>, \<open>y\<close> and \<open>z\<close>, \<^verbatim>\<open>mat4translate(M, x, y, z)\<close> leaves at \<open>M\<close>
  the identity matrix with the elements 12, 13 and 14 replaced by \<open>x\<close>, \<open>y\<close> and \<open>z\<close>;
  the other thirteen elements are those of the identity.
\<close>

theorem mat4translate_last_column:
  "matrix_at (mat4translate M x y z h) M =
      (matrix_at (mat4identity N g) N)[12 := x, 13 := y, 14 := z]
   \<and> matrix_at (mat4translate M x y z h) M =
      [1, 0, 0, 0,  0, 1, 0, 0,  0, 0, 1, 0,  x, y, z, 1]"
  by (simp add: matrix_at_mat4translate matrix_at_mat4identity identity4_def
      list_update_Cons_numeral)

theorem mat4translate_last_column_witness:
  "matrix_at (mat4translate 0 1 2 3 real) 0 = [1, 0, 0, 0,  0, 1, 0, 0,  0, 0, 1, 0,  1, 2, 3, 1]"
  using mat4translate_last_column [of 0 1 2 3 real] by simp

subsection \<open>C7: a rotation composed with its inverse\<close>

text \<open>
  C7. Let two arrays that share no cell hold the matrices written by \<^verbatim>\<open>mat4rotz\<close> for the
  angles \<open>\<theta>\<close> and \<open>- \<theta>\<close>. For every \<open>\<theta>\<close> their product, as \<^verbatim>\<open>mat4mult\<close> leaves it, is
  the identity matrix: exactly, over the exact arithmetic of this embedding, and therefore
  within every tolerance \<open>tol \<ge> 0\<close>. The same holds for \<^verbatim>\<open>mat4roty\<close> for every \<open>\<theta>\<close>, in
  particular for each \<open>\<theta>\<close> among \<open>0\<close>, \<open>\<pi> / 4\<close>, \<open>\<pi> / 2\<close>, \<open>\<pi>\<close> and \<open>3\<pi> / 2\<close>, and there in
  either order of the two factors.
\<close>

theorem rotation_inverse:
  "separate P Q \<and> 0 \<le> tol \<longrightarrow>
      matrix_at (mat4mult P Q Mout (mat4rotz Q (- \<theta>) (mat4rotz P \<theta> h))) Mout =
        matrix_at (mat4identity N g) N
    \<and> approx_eq tol
        (matrix_at (mat4mult P Q Mout (mat4rotz Q (- \<theta>) (mat4rotz P \<theta> h))) Mout)
        (matrix_at (mat4identity N g) N)
    \<and> matrix_at (mat4mult P Q Mout (mat4roty Q (- \<theta>) (mat4roty P \<theta> h))) Mout =
        matrix_at (mat4identity N g) N
    \<and> (\<forall>\<theta> \<in> {0, pi / 4, pi / 2, pi, 3 * pi / 2}.
        approx_eq tol
          (matrix_at (mat4mult P Q Mout (mat4roty Q (- \<theta>) (mat4roty P \<theta> h))) Mout)
          (matrix_at (mat4identity N g) N)
        \<and> approx_eq tol
          (matrix_at (mat4mult Q P Mout (mat4roty Q (- \<theta>) (mat4roty P \<theta> h))) Mout)
          (matrix_at (mat4identity N g) N))"
proof (intro impI)
  assume pre: "separate P Q \<and> 0 \<le> tol"
  then have sep: "separate Q P" by (auto simp: separate_def)
  have keepz: "matrix_at (mat4rotz Q b (mat4rotz P a h)) P = matrix_at (mat4rotz P a h) P" for a b
    using sep by (rule matrix_at_outside) (rule mat4rotz_outside)
  have keepy: "matrix_at (mat4roty Q b (mat4roty P a h)) P = matrix_at (mat4roty P a h) P" for a b
    using sep by (rule matrix_at_outside) (rule mat4roty_outside)
  have z: "matrix_at (mat4mult P Q Mout (mat4rotz Q (- a) (mat4rotz P a h))) Mout = identity4" for a
    by (simp only: matrix_at_mat4mult keepz matrix_at_mat4rotz rotz_inverse)
  have y: "matrix_at (mat4mult P Q Mout (mat4roty Q (- a) (mat4roty P a h))) Mout = identity4" for a
    by (simp only: matrix_at_mat4mult keepy matrix_at_mat4roty roty_inverse)
  have y': "matrix_at (mat4mult Q P Mout (mat4roty Q (- a) (mat4roty P a h))) Mout = identity4" for a
    using roty_inverse [of "- a"]
    by (simp only: matrix_at_mat4mult keepy matrix_at_mat4roty minus_minus)
  from pre have "approx_eq tol identity4 identity4" by (simp add: approx_eq_refl)
  then show "matrix_at (mat4mult P Q Mout (mat4rotz Q (- \<theta>) (mat4rotz P \<theta> h))) Mout =
        matrix_at (mat4identity N g) N
    \<and> approx_eq tol
        (matrix_at (mat4mult P Q Mout (mat4rotz Q (- \<theta>) (mat4rotz P \<theta> h))) Mout)
        (matrix_at (mat4identity N g) N)
    \<and> matrix_at (mat4mult P Q Mout (mat4roty Q (- \<theta>) (mat4roty P \<theta> h))) Mout =
        matrix_at (mat4identity N g) N
    \<and> (\<forall>\<theta> \<in> {0, pi / 4, pi / 2, pi, 3 * pi / 2}.
        approx_eq tol
          (matrix_at (mat4mult P Q Mout (mat4roty Q (- \<theta>) (mat4roty P \<theta> h))) Mout)
          (matrix_at (mat4identity N g) N)
        \<and> approx_eq tol
          (matrix_at (mat4mult Q P Mout (mat4roty Q (- \<theta>) (mat4roty P \<theta> h))) Mout)
          (matrix_at (mat4identity N g) N))"
    by (simp only: z y y' matrix_at_mat4identity) simp
qed

theorem rotation_inverse_witness:
  "separate 0 16 \<and> (0::real) \<le> 0.0001 \<and> pi / 2 \<in> {0, pi / 4, pi / 2, pi, 3 * pi / 2}
   \<and> matrix_at (mat4mult 0 16 32 (mat4rotz 16 (- (pi / 2)) (mat4rotz 0 (pi / 2) real))) 32 =
        [1, 0, 0, 0,  0, 1, 0, 0,  0, 0, 1, 0,  0, 0, 0, 1]
   \<and> approx_eq 0.0001
        (matrix_at (mat4mult 0 16 32 (mat4roty 16 (- (pi / 2)) (mat4roty 0 (pi / 2) real))) 32)
        [1, 0, 0, 0,  0, 1, 0, 0,  0, 0, 1, 0,  0, 0, 0, 1]"
  using rotation_inverse [of 0 16 "0.0001" 32 "pi / 2" real 0 real]
  by (simp add: separate_def matrix_at_mat4identity identity4_def approx_eq_def)

subsection \<open>C8: \<^verbatim>\<open>mat4mult\<close> is associative\<close>



subsection \<open>C9: no routine rejects an input\<close>



subsection \<open>C10: scaling by one\<close>

text \<open>
  C10. \<^verbatim>\<open>mat4scale\<close> with the factor \<open>1\<close> leaves memory exactly as \<^verbatim>\<open>mat4identity\<close> does:
  the matrix it writes is the identity matrix, element for element, element 15 included.
\<close>

theorem mat4scale_one:
  "mat4scale M 1 h = mat4identity M h
   \<and> matrix_at (mat4scale M 1 h) M = matrix_at (mat4identity N g) N"
proof
  show "mat4scale M 1 h = mat4identity M h"
    by (simp add: mat4scale_def mat4identity_def wr_def Let_def fun_eq_iff)
  show "matrix_at (mat4scale M 1 h) M = matrix_at (mat4identity N g) N"
    by (simp add: matrix_at_mat4scale matrix_at_mat4identity identity4_def)
qed

theorem mat4scale_one_witness:
  "matrix_at (mat4scale 0 1 real) 0 = [1, 0, 0, 0,  0, 1, 0, 0,  0, 0, 1, 0,  0, 0, 0, 1]
   \<and> matrix_at (mat4identity 16 real) 16 = [1, 0, 0, 0,  0, 1, 0, 0,  0, 0, 1, 0,  0, 0, 0, 1]"
  using mat4scale_one [of 0 real 16 real]
  by (simp add: matrix_at_mat4identity identity4_def)

end
